theory Spec2Isabelle
  imports Main
begin

section \<open>Data model\<close>

text \<open>
  The agent of \<^verbatim>\<open>openssa/l2/agent/agent.py\<close>. The classes it imports (Task, TaskStatus,
  APlan, APlanner, AReasoner) are defined in other modules of the package; their shape is
  taken from the specification, their behaviour is a parameter of the model.
\<close>

type_synonym AskAnsPair = "string \<times> string option"

text \<open>An exception raised inside a collaborator (Reasoner, Planner, Plan.execute).\<close>

type_synonym upstream = string

datatype error =
    ValueError string
  | NotImplementedError string
  | AttributeError string
  | TypeError string
  | UpstreamFailure upstream

text \<open>Modelled from the spec: the enumeration TaskStatus (openssa.l2.task.status), section 3.\<close>

datatype TaskStatus = CREATED | RESOLVED | NEEDING_DECOMPOSITION | DONE

text \<open>Modelled from the spec: the class Task (openssa.l2.task.task), section 3. A result that
  has not been set is Python's None.\<close>

record 'r Task =
  ask :: string
  resources :: "'r set"
  status :: TaskStatus
  result :: "string option"

text \<open>Modelled from the spec: the constructor call \<^verbatim>\<open>Task(ask=problem, resources=...)\<close>; the
  status starts as CREATED and no result is set.\<close>

definition new_Task :: "string \<Rightarrow> 'r set \<Rightarrow> 'r Task" where
  "new_Task problem rs = \<lparr>ask = problem, resources = rs, status = CREATED, result = None\<rparr>"

text \<open>Modelled from the spec: the class APlan (a task and its ordered sub-plans). The third
  field is the truth value Python gives the object (\<^verbatim>\<open>if plan\<close>), True for an instance of
  a class that defines neither \<^verbatim>\<open>__bool__\<close> nor \<^verbatim>\<open>__len__\<close>.\<close>

datatype 'r Plan = Plan (task: "'r Task") (sub_plans: "'r Plan list") (plan_truthy: bool)

text \<open>Modelled from the spec: the class APlanner, section 4.3. \<open>max_depth\<close> is a Python int;
  \<open>planner_truthy\<close> is the truth value of the object; the two methods that call the language
  model are parameters, given the planner's own \<open>max_depth\<close>, the arguments of the call and the
  state of the outside world, and return the new state of the world or raise.\<close>

record ('r, 'w) APlanner =
  max_depth :: int
  planner_truthy :: bool
  plan_impl :: "int \<Rightarrow> string \<Rightarrow> 'r set \<Rightarrow> string set option \<Rightarrow> 'w \<Rightarrow> upstream + ('r Plan \<times> 'w)"
  update_plan_resources_impl ::
    "int \<Rightarrow> 'r Plan \<Rightarrow> string \<Rightarrow> 'r set \<Rightarrow> string set \<Rightarrow> 'w \<Rightarrow> upstream + ('r Plan \<times> 'w)"

definition plan ::
  "('r, 'w) APlanner \<Rightarrow> string \<Rightarrow> 'r set \<Rightarrow> string set option \<Rightarrow> 'w \<Rightarrow> upstream + ('r Plan \<times> 'w)" where
  "plan p problem rs kn w = plan_impl p (max_depth p) problem rs kn w"

definition update_plan_resources ::
  "('r, 'w) APlanner \<Rightarrow> 'r Plan \<Rightarrow> string \<Rightarrow> 'r set \<Rightarrow> string set \<Rightarrow> 'w \<Rightarrow> upstream + ('r Plan \<times> 'w)" where
  "update_plan_resources p pl problem rs kn w =
     update_plan_resources_impl p (max_depth p) pl problem rs kn w"

text \<open>Modelled from the spec: \<^verbatim>\<open>one_level_deep()\<close> returns a Planner configured to decompose
  only once more.\<close>

definition one_level_deep :: "('r, 'w) APlanner \<Rightarrow> ('r, 'w) APlanner" where
  "one_level_deep p = p\<lparr>max_depth := 1\<rparr>"

text \<open>Modelled from the spec: \<^verbatim>\<open>one_fewer_level_deep()\<close> returns a Planner whose \<open>max_depth\<close>
  is the caller's minus one.\<close>

definition one_fewer_level_deep :: "('r, 'w) APlanner \<Rightarrow> ('r, 'w) APlanner" where
  "one_fewer_level_deep p = p\<lparr>max_depth := max_depth p - 1\<rparr>"

text \<open>Modelled from the spec: \<^verbatim>\<open>AReasoner.reason(task, knowledge)\<close>, section 4.2. It returns a
  text and mutates the task it is given; the model returns the text, the task as mutated and
  the new state of the world, or raises.\<close>

type_synonym ('r, 'w) AReasoner =
  "'r Task \<Rightarrow> string set \<Rightarrow> 'w \<Rightarrow> upstream + (string \<times> 'r Task \<times> 'w)"

text \<open>Modelled from the spec: \<^verbatim>\<open>APlan.execute(reasoner, other_results, knowledge)\<close>, section
  4.6, an opaque capability returning a text. \<open>None\<close> for \<open>other_results\<close> is Python's None,
  also the value of the argument when the caller leaves it out.\<close>

type_synonym ('r, 'w) execute =
  "'r Plan \<Rightarrow> ('r, 'w) AReasoner \<Rightarrow> AskAnsPair list option \<Rightarrow> string set \<Rightarrow> 'w \<Rightarrow> upstream + (string \<times> 'w)"

record ('r, 'w) Agent =
  planner :: "('r, 'w) APlanner option"
  reasoner :: "('r, 'w) AReasoner"
  resources :: "'r set"
  knowledge :: "string set"


section \<open>The recursive decomposition, \<^verbatim>\<open>Agent.solve_dynamically\<close>\<close>

text \<open>
  The record of one call of \<^verbatim>\<open>solve_dynamically\<close> that returned: the problem, the
  \<open>max_depth\<close> of the planner argument (\<open>None\<close> when no planner was passed), the
  \<open>other_results\<close> argument and the value returned. A call that decomposed also records the
  \<open>max_depth\<close> of the planner it decomposed with, the recursive calls it made, in order, and
  the \<open>other_results\<close> it handed to \<^verbatim>\<open>execute\<close>. The record is an observation of the run:
  nothing of the computation reads it.
\<close>

datatype Call =
    Direct (call_problem: string) (call_planner: "int option")
      (call_other_results: "AskAnsPair list option") (call_returned: "string option")
  | Decomposed (call_problem: string) (call_planner: "int option")
      (call_other_results: "AskAnsPair list option") (call_returned: "string option")
      (active_depth: int) (sub_calls: "Call list")
      (execute_other_results: "AskAnsPair list option")

text \<open>Python's \<^verbatim>\<open>planner or self.planner\<close>: the left operand when it is truthy (None is not),
  the right operand otherwise.\<close>

definition planner_or ::
  "('r, 'w) APlanner option \<Rightarrow> ('r, 'w) APlanner option \<Rightarrow> ('r, 'w) APlanner option" where
  "planner_or a b = (case a of None \<Rightarrow> b | Some p \<Rightarrow> if planner_truthy p then Some p else b)"

text \<open>
  \<open>solve_dynamically\<close> is the method, \<open>solve_sub_plans\<close> its \<^verbatim>\<open>for\<close> loop over the sub-plans
  (with the list \<open>sub_results\<close> accumulated so far). The first argument bounds the depth of
  the call stack, as the interpreter's recursion limit does: \<open>None\<close> is a run that needs a
  deeper stack. An exception is \<open>Inl\<close>. A run that returns gives the task as it stands at the
  \<^verbatim>\<open>return\<close> (the method returns its \<open>result\<close>), the record of the call and the state of the
  world; the loop gives the sub-plans with their tasks as mutated and the final
  \<open>sub_results\<close>. The progress bar around the loop (\<^verbatim>\<open>tqdm\<close>) is left out.
\<close>

fun solve_dynamically ::
  "nat \<Rightarrow> ('r, 'w) execute \<Rightarrow> ('r, 'w) Agent \<Rightarrow> string \<Rightarrow> ('r, 'w) APlanner option \<Rightarrow>
   AskAnsPair list option \<Rightarrow> 'w \<Rightarrow> (error + ('r Task \<times> Call \<times> 'w)) option"
and solve_sub_plans ::
  "nat \<Rightarrow> ('r, 'w) execute \<Rightarrow> ('r, 'w) Agent \<Rightarrow> ('r, 'w) APlanner \<Rightarrow> 'r Plan list \<Rightarrow>
   AskAnsPair list \<Rightarrow> 'w \<Rightarrow> (error + ('r Plan list \<times> AskAnsPair list \<times> Call list \<times> 'w)) option"
where
  "solve_dynamically 0 ex ag problem pln other_results w = None"
| "solve_dynamically (Suc n) ex ag problem pln other_results w =
     (case reasoner ag (new_Task problem (Agent.resources ag)) (knowledge ag) w of
        Inl e \<Rightarrow> Some (Inl (UpstreamFailure e))
      | Inr (txt, task0, w1) \<Rightarrow>
          if status task0 \<noteq> NEEDING_DECOMPOSITION
          then Some (Inr (task0,
                 Direct problem (map_option max_depth pln) other_results (result task0), w1))
          else (case planner_or pln (planner ag) of
             None \<Rightarrow> Some (Inl (AttributeError ''NoneType object has no attribute max_depth''))
           | Some p \<Rightarrow>
               if max_depth p = 0
               then Some (Inr (task0,
                      Direct problem (map_option max_depth pln) other_results (result task0), w1))
               else (case plan (one_level_deep p) problem (Agent.resources ag) None w1 of
                  Inl e \<Rightarrow> Some (Inl (UpstreamFailure e))
                | Inr (plan_1_level_deep, w2) \<Rightarrow>
                    (case solve_sub_plans n ex ag (one_fewer_level_deep p)
                            (sub_plans plan_1_level_deep) [] w2 of
                       None \<Rightarrow> None
                     | Some (Inl e) \<Rightarrow> Some (Inl e)
                     | Some (Inr (sub_plans', sub_results, calls, w3)) \<Rightarrow>
                         (case ex (Plan (task plan_1_level_deep) sub_plans'
                                    (plan_truthy plan_1_level_deep))
                                 (reasoner ag) other_results (knowledge ag) w3 of
                            Inl e \<Rightarrow> Some (Inl (UpstreamFailure e))
                          | Inr (r, w4) \<Rightarrow>
                              Some (Inr (task0\<lparr>result := Some r, status := DONE\<rparr>,
                                Decomposed problem (map_option max_depth pln) other_results
                                  (Some r) (max_depth p) calls other_results, w4)))))))"
| "solve_sub_plans n ex ag sub_planner [] sub_results w = Some (Inr ([], sub_results, [], w))"
| "solve_sub_plans n ex ag sub_planner (sub_plan # rest) sub_results w =
     (case solve_dynamically n ex ag (ask (task sub_plan)) (Some sub_planner)
             (Some sub_results) w of
        None \<Rightarrow> None
      | Some (Inl e) \<Rightarrow> Some (Inl e)
      | Some (Inr (t, c, w1)) \<Rightarrow>
          (let sub_task = (task sub_plan)\<lparr>result := result t, status := DONE\<rparr> in
           case solve_sub_plans n ex ag sub_planner rest
                  (sub_results @ [(ask sub_task, result sub_task)]) w1 of
             None \<Rightarrow> None
           | Some (Inl e) \<Rightarrow> Some (Inl e)
           | Some (Inr (done, final_results, calls, w2)) \<Rightarrow>
               Some (Inr (Plan sub_task (sub_plans sub_plan) (plan_truthy sub_plan) # done,
                          final_results, c # calls, w2))))"


section \<open>The dispatch, \<^verbatim>\<open>Agent.solve\<close>\<close>

text \<open>The truth value of an optional object in a guard (\<^verbatim>\<open>if self.planner\<close>, \<^verbatim>\<open>if plan\<close>):
  None is falsy, an object has the truth value its class gives it.\<close>

definition truthy_planner :: "('r, 'w) APlanner option \<Rightarrow> bool" where
  "truthy_planner a = (case a of None \<Rightarrow> False | Some p \<Rightarrow> planner_truthy p)"

definition truthy_plan :: "'r Plan option \<Rightarrow> bool" where
  "truthy_plan a = (case a of None \<Rightarrow> False | Some p \<Rightarrow> plan_truthy p)"

text \<open>\<^verbatim>\<open>plan.execute(reasoner=self.reasoner, knowledge=self.knowledge)\<close>, with \<open>other_results\<close>
  left out, and the text it returns as the result of \<^verbatim>\<open>solve\<close>.\<close>

definition execute_statically ::
  "('r, 'w) execute \<Rightarrow> ('r, 'w) Agent \<Rightarrow> 'r Plan \<Rightarrow> 'w \<Rightarrow> (error + (string option \<times> 'w)) option" where
  "execute_statically ex ag pl w =
     (case ex pl (reasoner ag) None (knowledge ag) w of
        Inl e \<Rightarrow> Some (Inl (UpstreamFailure e))
      | Inr (r, w1) \<Rightarrow> Some (Inr (Some r, w1)))"

text \<open>
  The \<^verbatim>\<open>match\<close> statement of \<^verbatim>\<open>solve\<close>, case by case in the order of the source. The logging
  of the plan between planning and execution is left out. A method called on a planner or a
  plan that is None raises an attribute error (no case of the source gets there).
\<close>

definition solve ::
  "nat \<Rightarrow> ('r, 'w) execute \<Rightarrow> ('r, 'w) Agent \<Rightarrow> string \<Rightarrow> 'r Plan option \<Rightarrow> bool \<Rightarrow> 'w \<Rightarrow>
   (error + (string option \<times> 'w)) option" where
  "solve fuel ex ag problem pl dynamic w =
     (if pl = None \<and> planner ag = None then
        (case reasoner ag (new_Task problem (Agent.resources ag)) (knowledge ag) w of
           Inl e \<Rightarrow> Some (Inl (UpstreamFailure e))
         | Inr (txt, t, w1) \<Rightarrow> Some (Inr (Some txt, w1)))
      else if pl = None \<and> \<not> dynamic \<and> truthy_planner (planner ag) then
        (case planner ag of
           None \<Rightarrow> Some (Inl (AttributeError ''NoneType object has no attribute plan''))
         | Some p \<Rightarrow>
            (case plan p problem (Agent.resources ag) (Some (knowledge ag)) w of
               Inl e \<Rightarrow> Some (Inl (UpstreamFailure e))
             | Inr (pl', w1) \<Rightarrow> execute_statically ex ag pl' w1))
      else if pl = None \<and> dynamic \<and> truthy_planner (planner ag) then
        (case solve_dynamically fuel ex ag problem None None w of
           None \<Rightarrow> None
         | Some (Inl e) \<Rightarrow> Some (Inl e)
         | Some (Inr (t, c, w1)) \<Rightarrow> Some (Inr (result t, w1)))
      else if planner ag = None \<and> truthy_plan pl then
        (case pl of
           None \<Rightarrow> Some (Inl (AttributeError ''NoneType object has no attribute execute''))
         | Some given \<Rightarrow> execute_statically ex ag given w)
      else if \<not> dynamic \<and> truthy_plan pl \<and> truthy_planner (planner ag) then
        (case (pl, planner ag) of
           (Some given, Some p) \<Rightarrow>
             (case update_plan_resources p given problem (Agent.resources ag) (knowledge ag) w of
                Inl e \<Rightarrow> Some (Inl (UpstreamFailure e))
              | Inr (pl', w1) \<Rightarrow> execute_statically ex ag pl' w1)
         | _ \<Rightarrow> Some (Inl (AttributeError
                   ''NoneType object has no attribute update_plan_resources'')))
      else if dynamic \<and> truthy_plan pl \<and> truthy_planner (planner ag) then
        Some (Inl (NotImplementedError
          ''Dynamic execution of given Plan and Planner not yet implemented''))
      else Some (Inl (ValueError ''*** Invalid Plan-Planner-Dynamism Combination ***'')))"

section \<open>\<^verbatim>\<open>Agent.add_knowledge\<close>\<close>

text \<open>The values a caller can pass for \<^verbatim>\<open>new_knowledge\<close>, and the second arguments of the
  two \<^verbatim>\<open>isinstance\<close> tests: the classes \<^verbatim>\<open>str\<close> and \<^verbatim>\<open>set\<close>, and the parameterized
  generic \<^verbatim>\<open>set[str]\<close>.\<close>

datatype pyval = PyStr string | PyStrSet "string set" | PyInt int | PyNone | PyList "pyval list"

datatype pytype = Cls_str | Cls_set | GenericAlias pytype "pytype list"

text \<open>Python's builtin: with a class it tests the value's class, with a parameterized generic
  it raises TypeError.\<close>

fun isinstance :: "pyval \<Rightarrow> pytype \<Rightarrow> error + bool" where
  "isinstance v Cls_str = Inr (case v of PyStr s \<Rightarrow> True | _ \<Rightarrow> False)"
| "isinstance v Cls_set = Inr (case v of PyStrSet S \<Rightarrow> True | _ \<Rightarrow> False)"
| "isinstance v (GenericAlias origin args) =
     Inl (TypeError ''isinstance() argument 2 cannot be a parameterized generic'')"

text \<open>\<^verbatim>\<open>self.knowledge.add(x)\<close> and \<^verbatim>\<open>self.knowledge.update(x)\<close>, reached with a string and
  with a set of strings.\<close>

definition set_add :: "string set \<Rightarrow> pyval \<Rightarrow> string set" where
  "set_add K v = (case v of PyStr s \<Rightarrow> insert s K | _ \<Rightarrow> K)"

definition set_update :: "string set \<Rightarrow> pyval \<Rightarrow> string set" where
  "set_update K v = (case v of PyStrSet S \<Rightarrow> K \<union> S | _ \<Rightarrow> K)"

definition add_knowledge :: "('r, 'w) Agent \<Rightarrow> pyval \<Rightarrow> error + ('r, 'w) Agent" where
  "add_knowledge ag new_knowledge =
     (case isinstance new_knowledge Cls_str of
        Inl e \<Rightarrow> Inl e
      | Inr is_str \<Rightarrow>
          if is_str then Inr (ag\<lparr>knowledge := set_add (knowledge ag) new_knowledge\<rparr>)
          else (case isinstance new_knowledge (GenericAlias Cls_set [Cls_str]) of
                  Inl e \<Rightarrow> Inl e
                | Inr is_set \<Rightarrow>
                    if is_set
                    then Inr (ag\<lparr>knowledge := set_update (knowledge ag) new_knowledge\<rparr>)
                    else Inl (ValueError ''Input must be a string or a set of strings'')))"


section \<open>Notions the properties are stated with\<close>


text \<open>The \<open>max_depth\<close> of the planner a call decomposes with, \<^verbatim>\<open>(planner or
  self.planner).max_depth\<close>, when there is such a planner.\<close>

definition active_max_depth ::
  "('r, 'w) APlanner option \<Rightarrow> ('r, 'w) Agent \<Rightarrow> int option" where
  "active_max_depth pln ag = map_option max_depth (planner_or pln (planner ag))"

text \<open>The record of the call, of a run that returned.\<close>

definition call_of :: "(error + ('r Task \<times> Call \<times> 'w)) option \<Rightarrow> Call option" where
  "call_of r = (case r of Some (Inr (t, c, w)) \<Rightarrow> Some c | _ \<Rightarrow> None)"

definition task_of :: "(error + ('r Task \<times> Call \<times> 'w)) option \<Rightarrow> 'r Task option" where
  "task_of r = (case r of Some (Inr (t, c, w)) \<Rightarrow> Some t | _ \<Rightarrow> None)"

text \<open>The number of levels of decomposition under a call.\<close>

fun levels :: "Call \<Rightarrow> nat" where
  "levels (Direct problem pd other_results r) = 0"
| "levels (Decomposed problem pd other_results r d calls eo) =
     Suc (fold max (map levels calls) 0)"

text \<open>Every recursive call under a call was given a planner whose \<open>max_depth\<close> is one less than
  that of the planner its caller decomposed with, and decomposed, if it did, with that
  planner.\<close>

fun strict_decrease :: "Call \<Rightarrow> bool" where
  "strict_decrease (Direct problem pd other_results r) = True"
| "strict_decrease (Decomposed problem pd other_results r d calls eo) =
     list_all (\<lambda>c. call_planner c = Some (d - 1) \<and>
                   (case c of Direct p' pd' o' r' \<Rightarrow> True
                            | Decomposed p' pd' o' r' d' cs' eo' \<Rightarrow> d' = d - 1) \<and>
                   strict_decrease c) calls"

text \<open>A call stays within the depth \<open>d\<close>: it has at most \<open>d\<close> levels of decomposition under
  it, the depths decrease by one at every descent, and it decomposed, if it did, with a
  planner of \<open>max_depth\<close> \<open>d\<close>.\<close>

definition within :: "int \<Rightarrow> Call \<Rightarrow> bool" where
  "within d c =
     (levels c \<le> nat d \<and> strict_decrease c \<and>
      (case c of Direct p' pd' o' r' \<Rightarrow> True
               | Decomposed p' pd' o' r' d' cs' eo' \<Rightarrow> d' = d))"


section \<open>Stub collaborators\<close>

text \<open>Collaborators for concrete runs, over a world that counts the calls made to them. The
  reasoner answers \<open>re: q\<close> to the question \<open>q\<close> and signals NEEDING_DECOMPOSITION on the
  questions \<open>hard\<close> selects, RESOLVED on the others; the planner splits \<open>q\<close> into \<open>q1\<close> and
  \<open>q2\<close>; \<open>execute\<close> answers \<open>synthesis of q\<close>.\<close>

definition only_X :: "string \<Rightarrow> bool" where
  "only_X s = (s = ''X'')"

definition always_hard :: "string \<Rightarrow> bool" where
  "always_hard s = True"

definition stub_reasoner :: "(string \<Rightarrow> bool) \<Rightarrow> (nat, nat) AReasoner" where
  "stub_reasoner hard t kn w =
     Inr (''re: '' @ ask t,
          t\<lparr>status := (if hard (ask t) then NEEDING_DECOMPOSITION else RESOLVED),
            result := Some (''re: '' @ ask t)\<rparr>,
          Suc w)"

definition leaf :: "string \<Rightarrow> nat Plan" where
  "leaf q = Plan (new_Task q {}) [] True"

definition stub_planner :: "int \<Rightarrow> bool \<Rightarrow> (nat, nat) APlanner" where
  "stub_planner d b =
     \<lparr>max_depth = d, planner_truthy = b,
      plan_impl = (\<lambda>d problem rs kn w.
         Inr (Plan (new_Task problem rs) [leaf (problem @ ''1''), leaf (problem @ ''2'')] True,
              Suc w)),
      update_plan_resources_impl = (\<lambda>d pl problem rs kn w. Inr (pl, Suc w))\<rparr>"

text \<open>A planner that splits every question into \<open>A\<close>, \<open>B\<close> and \<open>C\<close>.\<close>

definition abc_planner :: "int \<Rightarrow> (nat, nat) APlanner" where
  "abc_planner d =
     \<lparr>max_depth = d, planner_truthy = True,
      plan_impl = (\<lambda>d problem rs kn w.
         Inr (Plan (new_Task problem rs) [leaf ''A'', leaf ''B'', leaf ''C''] True, Suc w)),
      update_plan_resources_impl = (\<lambda>d pl problem rs kn w. Inr (pl, Suc w))\<rparr>"

definition stub_execute :: "(nat, nat) execute" where
  "stub_execute pl r other_results kn w = Inr (''synthesis of '' @ ask (task pl), Suc w)"

definition stub_agent ::
  "(nat, nat) APlanner option \<Rightarrow> (string \<Rightarrow> bool) \<Rightarrow> (nat, nat) Agent" where
  "stub_agent p hard =
     \<lparr>planner = p, reasoner = stub_reasoner hard, resources = {}, knowledge = {}\<rparr>"

lemmas stub_defs =
  stub_agent_def stub_planner_def abc_planner_def stub_execute_def stub_reasoner_def only_X_def
  always_hard_def leaf_def new_Task_def planner_or_def plan_def one_level_deep_def
  one_fewer_level_deep_def

section \<open>Concrete runs\<close>

text \<open>Scenario B of the specification: the planner allows one level, the reasoner asks for a
  decomposition of \<open>X\<close> only.\<close>

lemma scenario_B_run:
  "solve_dynamically 2 stub_execute (stub_agent (Some (stub_planner 1 True)) only_X)
     ''X'' None None 0 =
   Some (Inr (\<lparr>ask = ''X'', resources = {}, status = DONE, result = Some ''synthesis of X''\<rparr>,
        Decomposed ''X'' None None (Some ''synthesis of X'') 1
         [Direct ''X1'' (Some 0) (Some []) (Some ''re: X1''),
          Direct ''X2'' (Some 0) (Some [(''X1'', Some ''re: X1'')]) (Some ''re: X2'')]
         None, 5))"
  by (simp add: stub_defs numeral_2_eq_2)

lemma scenario_B_loop:
  "solve_sub_plans 1 stub_execute (stub_agent (Some (stub_planner 1 True)) only_X)
     (one_fewer_level_deep (stub_planner 1 True)) [leaf ''X1'', leaf ''X2''] [] 2 =
   Some (Inr ([Plan \<lparr>ask = ''X1'', resources = {}, status = DONE, result = Some ''re: X1''\<rparr>
                 [] True,
               Plan \<lparr>ask = ''X2'', resources = {}, status = DONE, result = Some ''re: X2''\<rparr>
                 [] True],
              [(''X1'', Some ''re: X1''), (''X2'', Some ''re: X2'')],
              [Direct ''X1'' (Some 0) (Some []) (Some ''re: X1''),
               Direct ''X2'' (Some 0) (Some [(''X1'', Some ''re: X1'')]) (Some ''re: X2'')], 4))"
  by (simp add: stub_defs)

lemma scenario_B_reasoner:
  "reasoner (stub_agent (Some (stub_planner 1 True)) only_X)
     (new_Task ''X'' (Agent.resources (stub_agent (Some (stub_planner 1 True)) only_X)))
     (knowledge (stub_agent (Some (stub_planner 1 True)) only_X)) 0 =
   Inr (''re: X'',
        \<lparr>ask = ''X'', resources = {}, status = NEEDING_DECOMPOSITION, result = Some ''re: X''\<rparr>,
        1)"
  by (simp add: stub_defs)

text \<open>A planner that allows no level, and a reasoner that always asks for a decomposition.\<close>

lemma depth_zero_run:
  "solve_dynamically 1 stub_execute (stub_agent (Some (stub_planner 0 True)) always_hard)
     ''X'' None None 0 =
   Some (Inr (\<lparr>ask = ''X'', resources = {}, status = NEEDING_DECOMPOSITION,
               result = Some ''re: X''\<rparr>,
        Direct ''X'' None None (Some ''re: X''), 1))"
  by (simp add: stub_defs)

lemma always_hard_reasoner:
  "reasoner (stub_agent p always_hard)
     (new_Task ''X'' (Agent.resources (stub_agent p always_hard)))
     (knowledge (stub_agent p always_hard)) 0 =
   Inr (''re: X'',
        \<lparr>ask = ''X'', resources = {}, status = NEEDING_DECOMPOSITION, result = Some ''re: X''\<rparr>,
        1)"
  by (simp add: stub_defs)

section \<open>The exceptions of \<^verbatim>\<open>solve_dynamically\<close>\<close>






section \<open>Properties of \<^verbatim>\<open>add_knowledge\<close>\<close>

lemma add_knowledge_str:
  "add_knowledge ag (PyStr s) = Inr (ag\<lparr>knowledge := insert s (knowledge ag)\<rparr>)"
  by (simp add: add_knowledge_def set_add_def)

lemma add_knowledge_other:
  "add_knowledge ag (PyInt i) =
     Inl (TypeError ''isinstance() argument 2 cannot be a parameterized generic'')"
  by (simp add: add_knowledge_def)

text \<open>
  C8. The claim: a string is added to the knowledge set, a set of strings is merged into it,
  any other value fails with a type error. The code's second test is
  \<^verbatim>\<open>isinstance(new_knowledge, set[str])\<close>, and \<^verbatim>\<open>isinstance\<close> raises TypeError on a
  parameterized generic: called with a set of strings, \<open>add_knowledge\<close> raises instead of
  merging, and the knowledge set is left as it was.
\<close>

theorem add_knowledge_set_raises:
  "add_knowledge ag (PyStrSet S) =
     Inl (TypeError ''isinstance() argument 2 cannot be a parameterized generic'')"
  by (simp add: add_knowledge_def)

section \<open>Properties of the dispatch\<close>

text \<open>
  C10. The dispatch tests the truth value of the planner, not its presence: with a planner
  that is an object (not None) but falsy, and no explicit plan, \<open>solve\<close> raises the
  invalid-combination error, whatever \<open>dynamic\<close> is.
\<close>

theorem solve_falsy_planner:
  "planner ag = Some p \<Longrightarrow> \<not> planner_truthy p \<Longrightarrow>
   solve fuel ex ag problem None dynamic w =
     Some (Inl (ValueError ''*** Invalid Plan-Planner-Dynamism Combination ***''))"
  by (simp add: solve_def truthy_planner_def truthy_plan_def)

theorem solve_falsy_planner_witness:
  "planner (stub_agent (Some (stub_planner 2 False)) only_X) = Some (stub_planner 2 False) \<and>
   \<not> planner_truthy (stub_planner 2 False) \<and>
   solve 3 stub_execute (stub_agent (Some (stub_planner 2 False)) only_X) ''X'' None True 0 =
     Some (Inl (ValueError ''*** Invalid Plan-Planner-Dynamism Combination ***'')) \<and>
   solve 3 stub_execute (stub_agent (Some (stub_planner 2 False)) only_X) ''X'' None False 0 =
     Some (Inl (ValueError ''*** Invalid Plan-Planner-Dynamism Combination ***''))"
proof -
  have a: "planner (stub_agent (Some (stub_planner 2 False)) only_X) = Some (stub_planner 2 False)"
    by (simp add: stub_agent_def)
  have b: "\<not> planner_truthy (stub_planner 2 False)"
    by (simp add: stub_planner_def)
  show ?thesis
    using a b solve_falsy_planner [OF a b, of 3 stub_execute "''X''" True 0]
      solve_falsy_planner [OF a b, of 3 stub_execute "''X''" False 0]
    by simp
qed

text \<open>
  C6. With no planner and no explicit plan, \<open>solve\<close> returns the text that the reasoner returns
  on a fresh task for the problem, with the agent's resources and knowledge.
\<close>

theorem solve_reasons_directly:
  "planner ag = None \<Longrightarrow>
   reasoner ag (new_Task problem (Agent.resources ag)) (knowledge ag) w = Inr (txt, t, w1) \<Longrightarrow>
   solve fuel ex ag problem None dynamic w = Some (Inr (Some txt, w1))"
  by (simp add: solve_def)

theorem solve_reasons_directly_witness:
  "planner (stub_agent None only_X) = None \<and>
   reasoner (stub_agent None only_X)
     (new_Task ''2+2?'' (Agent.resources (stub_agent None only_X)))
     (knowledge (stub_agent None only_X)) 0 =
     Inr (''re: 2+2?'',
          \<lparr>ask = ''2+2?'', resources = {}, status = RESOLVED, result = Some ''re: 2+2?''\<rparr>, 1) \<and>
   solve 0 stub_execute (stub_agent None only_X) ''2+2?'' None True 0 =
     Some (Inr (Some ''re: 2+2?'', 1))"
proof -
  have a: "planner (stub_agent None only_X) = None"
    by (simp add: stub_agent_def)
  have b: "reasoner (stub_agent None only_X)
     (new_Task ''2+2?'' (Agent.resources (stub_agent None only_X)))
     (knowledge (stub_agent None only_X)) 0 =
     Inr (''re: 2+2?'',
          \<lparr>ask = ''2+2?'', resources = {}, status = RESOLVED, result = Some ''re: 2+2?''\<rparr>, 1)"
    by (simp add: stub_defs)
  show ?thesis
    using a b solve_reasons_directly [OF a b, of 0 stub_execute True]
    by simp
qed






section \<open>Properties of the recursive decomposition\<close>

text \<open>
  C9. Called with no planner argument on an agent whose planner is None,
  \<open>solve_dynamically\<close> raises an attribute error when the reasoner sets the status
  NEEDING_DECOMPOSITION (\<open>max_depth\<close> is read on None), and returns the result the reasoner
  left in the task for any other status.
\<close>

theorem solve_dynamically_no_planner:
  "planner ag = None \<Longrightarrow>
   reasoner ag (new_Task problem (Agent.resources ag)) (knowledge ag) w = Inr (txt, t, w1) \<Longrightarrow>
   solve_dynamically (Suc n) ex ag problem None oth w =
     (if status t = NEEDING_DECOMPOSITION
      then Some (Inl (AttributeError ''NoneType object has no attribute max_depth''))
      else Some (Inr (t, Direct problem None oth (result t), w1)))"
  by (simp add: planner_or_def)

theorem solve_dynamically_no_planner_witness:
  "planner (stub_agent None always_hard) = None \<and>
   solve_dynamically (Suc 0) stub_execute (stub_agent None always_hard) ''X'' None None 0 =
     Some (Inl (AttributeError ''NoneType object has no attribute max_depth''))"
proof -
  have a: "planner (stub_agent None always_hard) = None"
    by (simp add: stub_agent_def)
  show ?thesis
    using a solve_dynamically_no_planner [OF a always_hard_reasoner, of 0 stub_execute None]
    by simp
qed

text \<open>
  C5. When the \<open>max_depth\<close> of the active planner is 0, \<open>solve_dynamically\<close> does not decompose,
  whatever status the reasoner sets: it returns the result the reasoner left in the task,
  in the world as the reasoner left it, and the call made no recursive call.
\<close>

theorem solve_dynamically_depth_zero:
  "planner_or pln (planner ag) = Some p \<Longrightarrow> max_depth p = 0 \<Longrightarrow>
   reasoner ag (new_Task problem (Agent.resources ag)) (knowledge ag) w = Inr (txt, t, w1) \<Longrightarrow>
   solve_dynamically (Suc n) ex ag problem pln oth w =
     Some (Inr (t, Direct problem (map_option max_depth pln) oth (result t), w1))"
  by simp

theorem solve_dynamically_depth_zero_witness:
  "planner_or None (planner (stub_agent (Some (stub_planner 0 True)) always_hard)) =
     Some (stub_planner 0 True) \<and>
   max_depth (stub_planner 0 True) = 0 \<and>
   solve_dynamically (Suc 0) stub_execute (stub_agent (Some (stub_planner 0 True)) always_hard)
     ''X'' None None 0 =
     Some (Inr (\<lparr>ask = ''X'', resources = {}, status = NEEDING_DECOMPOSITION,
                 result = Some ''re: X''\<rparr>,
                Direct ''X'' None None (Some ''re: X''), 1))"
proof -
  have a: "planner_or None (planner (stub_agent (Some (stub_planner 0 True)) always_hard)) =
     Some (stub_planner 0 True)"
    by (simp add: planner_or_def stub_agent_def)
  have b: "max_depth (stub_planner 0 True) = 0"
    by (simp add: stub_planner_def)
  show ?thesis
    using a b solve_dynamically_depth_zero [OF a b always_hard_reasoner, of 0 stub_execute None]
    by simp
qed

text \<open>
  C2. The claim: after a top-level call returns, the status of its task is RESOLVED or DONE.
  It fails when the planner's \<open>max_depth\<close> is 0 and the reasoner asks for a decomposition: the
  call returns with the status NEEDING_DECOMPOSITION.
\<close>

theorem final_status_counterexample:
  "map_option status
     (task_of (solve_dynamically 1 stub_execute
        (stub_agent (Some (stub_planner 0 True)) always_hard) ''X'' None None 0)) =
   Some NEEDING_DECOMPOSITION"
  using depth_zero_run by (simp add: task_of_def)

text \<open>
  C2, amended. After a call returns, the status of its task is DONE when the reasoner asked
  for a decomposition and the \<open>max_depth\<close> of the active planner is not 0, and is the status
  the reasoner set otherwise.
\<close>

theorem solve_dynamically_final_status:
  "solve_dynamically fuel ex ag problem pln oth w = Some (Inr (t', c, w')) \<Longrightarrow>
   reasoner ag (new_Task problem (Agent.resources ag)) (knowledge ag) w = Inr (txt, t, w1) \<Longrightarrow>
   status t' =
     (if status t = NEEDING_DECOMPOSITION \<and> active_max_depth pln ag \<noteq> Some 0
      then DONE else status t)"
  by (cases fuel)
     (auto simp: active_max_depth_def split: option.splits sum.splits prod.splits if_splits)

theorem solve_dynamically_final_status_witness:
  "task_of (solve_dynamically 2 stub_execute (stub_agent (Some (stub_planner 1 True)) only_X)
      ''X'' None None 0) =
     Some \<lparr>ask = ''X'', resources = {}, status = DONE, result = Some ''synthesis of X''\<rparr> \<and>
   status \<lparr>ask = ''X'', resources = {}, status = DONE,
            result = Some ''synthesis of X''\<rparr> =
     (if status \<lparr>ask = ''X'', resources = {}, status = NEEDING_DECOMPOSITION,
                  result = Some ''re: X''\<rparr> = NEEDING_DECOMPOSITION \<and>
         active_max_depth None (stub_agent (Some (stub_planner 1 True)) only_X) \<noteq> Some 0
      then DONE
      else status \<lparr>ask = ''X'', resources = {}, status = NEEDING_DECOMPOSITION,
                    result = Some ''re: X''\<rparr>) \<and>
   active_max_depth None (stub_agent (Some (stub_planner 1 True)) only_X) = Some 1"
  using solve_dynamically_final_status [OF scenario_B_run scenario_B_reasoner] scenario_B_run
  by (simp add: active_max_depth_def task_of_def stub_defs del: solve_dynamically.simps)

text \<open>
  C7. The claim: a call that decomposes hands to \<^verbatim>\<open>execute\<close> the sibling context it was
  given, which at a top-level call is the empty sequence. At a top-level call the argument
  \<open>other_results\<close> is left out, and what \<^verbatim>\<open>execute\<close> is handed is None, not an empty list.
\<close>

theorem execute_other_results_counterexample:
  "map_option execute_other_results
     (call_of (solve_dynamically 2 stub_execute
        (stub_agent (Some (stub_planner 1 True)) only_X) ''X'' None None 0)) =
   Some None"
  using scenario_B_run by (simp add: call_of_def)

text \<open>
  C7, amended. A call that decomposes, once the loop over the sub-plans has returned, calls
  \<^verbatim>\<open>execute\<close> on the one-level plan (its sub-plans as the loop left them) with the
  \<open>other_results\<close> argument the call itself was given, unchanged (None when the caller left it
  out), sets the task's result to the text \<^verbatim>\<open>execute\<close> returns and its status to DONE, and
  returns that result.
\<close>

theorem solve_dynamically_synthesis:
  "reasoner ag (new_Task problem (Agent.resources ag)) (knowledge ag) w = Inr (txt, t, w1) \<Longrightarrow>
   status t = NEEDING_DECOMPOSITION \<Longrightarrow>
   planner_or pln (planner ag) = Some p \<Longrightarrow> max_depth p \<noteq> 0 \<Longrightarrow>
   plan (one_level_deep p) problem (Agent.resources ag) None w1 = Inr (plan_1, w2) \<Longrightarrow>
   solve_sub_plans n ex ag (one_fewer_level_deep p) (sub_plans plan_1) [] w2 =
     Some (Inr (resolved, sub_results, calls, w3)) \<Longrightarrow>
   ex (Plan (task plan_1) resolved (plan_truthy plan_1)) (reasoner ag) oth (knowledge ag) w3 =
     Inr (r, w4) \<Longrightarrow>
   solve_dynamically (Suc n) ex ag problem pln oth w =
     Some (Inr (t\<lparr>result := Some r, status := DONE\<rparr>,
                Decomposed problem (map_option max_depth pln) oth (Some r) (max_depth p)
                  calls oth,
                w4))"
  by simp


theorem solve_dynamically_synthesis_witness:
  "solve_dynamically (Suc 1) stub_execute (stub_agent (Some (stub_planner 1 True)) only_X)
     ''X'' None (Some [(''W'', Some ''re: W'')]) 0 =
   Some (Inr (\<lparr>ask = ''X'', resources = {}, status = DONE, result = Some ''synthesis of X''\<rparr>,
        Decomposed ''X'' None (Some [(''W'', Some ''re: W'')]) (Some ''synthesis of X'') 1
         [Direct ''X1'' (Some 0) (Some []) (Some ''re: X1''),
          Direct ''X2'' (Some 0) (Some [(''X1'', Some ''re: X1'')]) (Some ''re: X2'')]
         (Some [(''W'', Some ''re: W'')]), 5))"
proof -
  let ?ag = "stub_agent (Some (stub_planner 1 True)) only_X"
  let ?p = "stub_planner 1 True"
  let ?t = "\<lparr>ask = ''X'', resources = {}, status = NEEDING_DECOMPOSITION,
             result = Some ''re: X''\<rparr> :: nat Task"
  let ?pl = "Plan (new_Task ''X'' {}) [leaf ''X1'', leaf ''X2''] True :: nat Plan"
  have b: "status ?t = NEEDING_DECOMPOSITION" by simp
  have c: "planner_or None (planner ?ag) = Some ?p"
    by (simp add: planner_or_def stub_agent_def)
  have d: "max_depth ?p \<noteq> 0" by (simp add: stub_planner_def)
  have e: "plan (one_level_deep ?p) ''X'' (Agent.resources ?ag) None 1 = Inr (?pl, 2)"
    by (simp add: stub_defs)
  have f: "solve_sub_plans 1 stub_execute ?ag (one_fewer_level_deep ?p) (sub_plans ?pl) [] 2 =
     Some (Inr ([Plan \<lparr>ask = ''X1'', resources = {}, status = DONE, result = Some ''re: X1''\<rparr>
                 [] True,
               Plan \<lparr>ask = ''X2'', resources = {}, status = DONE, result = Some ''re: X2''\<rparr>
                 [] True],
              [(''X1'', Some ''re: X1''), (''X2'', Some ''re: X2'')],
              [Direct ''X1'' (Some 0) (Some []) (Some ''re: X1''),
               Direct ''X2'' (Some 0) (Some [(''X1'', Some ''re: X1'')]) (Some ''re: X2'')], 4))"
    using scenario_B_loop by simp
  have g: "stub_execute (Plan (task ?pl)
       [Plan \<lparr>ask = ''X1'', resources = {}, status = DONE, result = Some ''re: X1''\<rparr> [] True,
        Plan \<lparr>ask = ''X2'', resources = {}, status = DONE, result = Some ''re: X2''\<rparr> [] True]
       (plan_truthy ?pl)) (reasoner ?ag) (Some [(''W'', Some ''re: W'')]) (knowledge ?ag) 4 =
     Inr (''synthesis of X'', 5)"
    by (simp add: stub_defs)
  show ?thesis
    using solve_dynamically_synthesis [OF scenario_B_reasoner b c d e f g]
    by (simp add: stub_planner_def del: solve_dynamically.simps)
qed


section \<open>The sibling context\<close>

lemma solve_dynamically_call:
  "solve_dynamically n ex ag problem pln oth w = Some (Inr (t, c, w')) \<Longrightarrow>
   call_problem c = problem \<and> call_planner c = map_option max_depth pln \<and>
   call_other_results c = oth \<and> call_returned c = result t"
  by (cases n) (auto split: option.splits sum.splits prod.splits if_splits)

text \<open>The loop over three sub-plans returns only when its three recursive calls do, each
  started in the world its predecessor left.\<close>

lemma sub_plans_abc_calls:
  assumes "solve_sub_plans n ex ag sp [A, B, C] [] w = Some (Inr (resolved, final, calls, w'))"
  shows "\<exists>tA cA wA tB cB wB tC cC.
     solve_dynamically n ex ag (ask (task A)) (Some sp) (Some []) w = Some (Inr (tA, cA, wA)) \<and>
     solve_dynamically n ex ag (ask (task B)) (Some sp)
       (Some [(ask (task A), result tA)]) wA = Some (Inr (tB, cB, wB)) \<and>
     solve_dynamically n ex ag (ask (task C)) (Some sp)
       (Some [(ask (task A), result tA), (ask (task B), result tB)]) wB =
       Some (Inr (tC, cC, w')) \<and>
     resolved =
       [Plan ((task A)\<lparr>result := result tA, status := DONE\<rparr>) (sub_plans A) (plan_truthy A),
        Plan ((task B)\<lparr>result := result tB, status := DONE\<rparr>) (sub_plans B) (plan_truthy B),
        Plan ((task C)\<lparr>result := result tC, status := DONE\<rparr>) (sub_plans C) (plan_truthy C)] \<and>
     final = [(ask (task A), result tA), (ask (task B), result tB), (ask (task C), result tC)] \<and>
     calls = [cA, cB, cC]"
  using assms
  by (auto simp: Let_def split: option.splits sum.splits prod.splits)

lemma abc_run:
  "solve_dynamically 2 stub_execute (stub_agent (Some (abc_planner 1)) only_X)
     ''X'' None None 0 =
   Some (Inr (\<lparr>ask = ''X'', resources = {}, status = DONE, result = Some ''synthesis of X''\<rparr>,
        Decomposed ''X'' None None (Some ''synthesis of X'') 1
         [Direct ''A'' (Some 0) (Some []) (Some ''re: A''),
          Direct ''B'' (Some 0) (Some [(''A'', Some ''re: A'')]) (Some ''re: B''),
          Direct ''C'' (Some 0) (Some [(''A'', Some ''re: A''), (''B'', Some ''re: B'')])
            (Some ''re: C'')]
         None, 6))"
  by (simp add: stub_defs numeral_2_eq_2)

lemma abc_reasoner:
  "reasoner (stub_agent (Some (abc_planner 1)) only_X)
     (new_Task ''X'' (Agent.resources (stub_agent (Some (abc_planner 1)) only_X)))
     (knowledge (stub_agent (Some (abc_planner 1)) only_X)) 0 =
   Inr (''re: X'',
        \<lparr>ask = ''X'', resources = {}, status = NEEDING_DECOMPOSITION, result = Some ''re: X''\<rparr>,
        1)"
  by (simp add: stub_defs)

text \<open>
  C3. When \<open>solve_dynamically\<close> decomposes a problem into the sub-plans \<open>[A, B, C]\<close> and
  returns, its loop made three recursive calls of \<open>solve_dynamically\<close>, with the planner one
  level shallower, that returned: on A's question with the empty \<open>other_results\<close>; then, in
  the world A's call left, on B's question with exactly A's pair (A's question, the value
  A's call returned); then, in the world B's call left, on C's question with exactly A's and
  B's pairs, in that order. The loop leaves each sub-task with the value its call returned as
  result and the status DONE, and \<open>sub_results\<close> with the three pairs in order; these
  sub-plans are what \<^verbatim>\<open>execute\<close> is given. The record of the run holds the same three calls.
\<close>

theorem solve_dynamically_sibling_context:
  assumes run: "solve_dynamically (Suc n) ex ag problem pln oth w = Some (Inr (t', c, w'))"
    and r: "reasoner ag (new_Task problem (Agent.resources ag)) (knowledge ag) w =
              Inr (tx, t, w1)"
    and need: "status t = NEEDING_DECOMPOSITION"
    and p: "planner_or pln (planner ag) = Some p" and d: "max_depth p \<noteq> 0"
    and pl: "plan (one_level_deep p) problem (Agent.resources ag) None w1 = Inr (plan_1, w2)"
    and sps: "sub_plans plan_1 = [A, B, C]"
  shows "\<exists>tA cA wA tB cB wB tC cC wC r.
     solve_dynamically n ex ag (ask (task A)) (Some (one_fewer_level_deep p)) (Some []) w2 =
       Some (Inr (tA, cA, wA)) \<and>
     solve_dynamically n ex ag (ask (task B)) (Some (one_fewer_level_deep p))
       (Some [(ask (task A), result tA)]) wA = Some (Inr (tB, cB, wB)) \<and>
     solve_dynamically n ex ag (ask (task C)) (Some (one_fewer_level_deep p))
       (Some [(ask (task A), result tA), (ask (task B), result tB)]) wB =
       Some (Inr (tC, cC, wC)) \<and>
     solve_sub_plans n ex ag (one_fewer_level_deep p) [A, B, C] [] w2 =
       Some (Inr (
         [Plan ((task A)\<lparr>result := result tA, status := DONE\<rparr>) (sub_plans A) (plan_truthy A),
          Plan ((task B)\<lparr>result := result tB, status := DONE\<rparr>) (sub_plans B) (plan_truthy B),
          Plan ((task C)\<lparr>result := result tC, status := DONE\<rparr>) (sub_plans C) (plan_truthy C)],
         [(ask (task A), result tA), (ask (task B), result tB), (ask (task C), result tC)],
         [cA, cB, cC], wC)) \<and>
     ex (Plan (task plan_1)
          [Plan ((task A)\<lparr>result := result tA, status := DONE\<rparr>) (sub_plans A) (plan_truthy A),
           Plan ((task B)\<lparr>result := result tB, status := DONE\<rparr>) (sub_plans B) (plan_truthy B),
           Plan ((task C)\<lparr>result := result tC, status := DONE\<rparr>) (sub_plans C) (plan_truthy C)]
          (plan_truthy plan_1)) (reasoner ag) oth (knowledge ag) wC = Inr (r, w') \<and>
     t' = t\<lparr>result := Some r, status := DONE\<rparr> \<and>
     c = Decomposed problem (map_option max_depth pln) oth (Some r) (max_depth p)
           [cA, cB, cC] oth \<and>
     call_problem cA = ask (task A) \<and> call_other_results cA = Some [] \<and>
     call_returned cA = result tA \<and>
     call_problem cB = ask (task B) \<and>
     call_other_results cB = Some [(ask (task A), call_returned cA)] \<and>
     call_returned cB = result tB \<and>
     call_problem cC = ask (task C) \<and>
     call_other_results cC =
       Some [(ask (task A), call_returned cA), (ask (task B), call_returned cB)] \<and>
     call_returned cC = result tC"
proof -
  let ?sp = "one_fewer_level_deep p"
  obtain resolved final calls w3 r where
    loop: "solve_sub_plans n ex ag ?sp [A, B, C] [] w2 = Some (Inr (resolved, final, calls, w3))"
    and e: "ex (Plan (task plan_1) resolved (plan_truthy plan_1)) (reasoner ag) oth
              (knowledge ag) w3 = Inr (r, w')"
    and t': "t' = t\<lparr>result := Some r, status := DONE\<rparr>"
    and c: "c = Decomposed problem (map_option max_depth pln) oth (Some r) (max_depth p)
           calls oth"
    using run r need p d pl sps
    by (auto split: option.splits sum.splits prod.splits)
  obtain tA cA wA tB cB wB tC cC where
    a: "solve_dynamically n ex ag (ask (task A)) (Some ?sp) (Some []) w2 = Some (Inr (tA, cA, wA))"
    and b: "solve_dynamically n ex ag (ask (task B)) (Some ?sp)
       (Some [(ask (task A), result tA)]) wA = Some (Inr (tB, cB, wB))"
    and cc: "solve_dynamically n ex ag (ask (task C)) (Some ?sp)
       (Some [(ask (task A), result tA), (ask (task B), result tB)]) wB =
       Some (Inr (tC, cC, w3))"
    and res: "resolved =
       [Plan ((task A)\<lparr>result := result tA, status := DONE\<rparr>) (sub_plans A) (plan_truthy A),
        Plan ((task B)\<lparr>result := result tB, status := DONE\<rparr>) (sub_plans B) (plan_truthy B),
        Plan ((task C)\<lparr>result := result tC, status := DONE\<rparr>) (sub_plans C) (plan_truthy C)]"
    and fin: "final = [(ask (task A), result tA), (ask (task B), result tB), (ask (task C), result tC)]"
    and cs: "calls = [cA, cB, cC]"
    using sub_plans_abc_calls [OF loop] by blast
  note ra = solve_dynamically_call [OF a] and rb = solve_dynamically_call [OF b]
    and rc = solve_dynamically_call [OF cc]
  show ?thesis
    apply (rule exI [of _ tA], rule exI [of _ cA], rule exI [of _ wA])
    apply (rule exI [of _ tB], rule exI [of _ cB], rule exI [of _ wB])
    apply (rule exI [of _ tC], rule exI [of _ cC], rule exI [of _ w3], rule exI [of _ r])
    using a b cc loop e t' c res fin cs ra rb rc
    apply (simp del: solve_dynamically.simps solve_sub_plans.simps)
    done
qed

theorem solve_dynamically_sibling_context_witness:
  "solve_dynamically (Suc 1) stub_execute (stub_agent (Some (abc_planner 1)) only_X)
     ''X'' None None 0 =
   Some (Inr (\<lparr>ask = ''X'', resources = {}, status = DONE, result = Some ''synthesis of X''\<rparr>,
        Decomposed ''X'' None None (Some ''synthesis of X'') 1
         [Direct ''A'' (Some 0) (Some []) (Some ''re: A''),
          Direct ''B'' (Some 0) (Some [(''A'', Some ''re: A'')]) (Some ''re: B''),
          Direct ''C'' (Some 0) (Some [(''A'', Some ''re: A''), (''B'', Some ''re: B'')])
            (Some ''re: C'')]
         None, 6)) \<and>
   solve_dynamically 1 stub_execute (stub_agent (Some (abc_planner 1)) only_X) ''A''
     (Some (one_fewer_level_deep (abc_planner 1))) (Some []) 2 =
   Some (Inr (\<lparr>ask = ''A'', resources = {}, status = RESOLVED, result = Some ''re: A''\<rparr>,
        Direct ''A'' (Some 0) (Some []) (Some ''re: A''), 3)) \<and>
   solve_dynamically 1 stub_execute (stub_agent (Some (abc_planner 1)) only_X) ''B''
     (Some (one_fewer_level_deep (abc_planner 1))) (Some [(''A'', Some ''re: A'')]) 3 =
   Some (Inr (\<lparr>ask = ''B'', resources = {}, status = RESOLVED, result = Some ''re: B''\<rparr>,
        Direct ''B'' (Some 0) (Some [(''A'', Some ''re: A'')]) (Some ''re: B''), 4)) \<and>
   solve_dynamically 1 stub_execute (stub_agent (Some (abc_planner 1)) only_X) ''C''
     (Some (one_fewer_level_deep (abc_planner 1)))
     (Some [(''A'', Some ''re: A''), (''B'', Some ''re: B'')]) 4 =
   Some (Inr (\<lparr>ask = ''C'', resources = {}, status = RESOLVED, result = Some ''re: C''\<rparr>,
        Direct ''C'' (Some 0) (Some [(''A'', Some ''re: A''), (''B'', Some ''re: B'')])
          (Some ''re: C''), 5))"
proof -
  let ?ag = "stub_agent (Some (abc_planner 1)) only_X"
  let ?p = "abc_planner 1"
  let ?t = "\<lparr>ask = ''X'', resources = {}, status = NEEDING_DECOMPOSITION,
             result = Some ''re: X''\<rparr> :: nat Task"
  let ?pl = "Plan (new_Task ''X'' {}) [leaf ''A'', leaf ''B'', leaf ''C''] True :: nat Plan"
  have run: "solve_dynamically (Suc 1) stub_execute ?ag ''X'' None None 0 =
    Some (Inr (\<lparr>ask = ''X'', resources = {}, status = DONE, result = Some ''synthesis of X''\<rparr>,
        Decomposed ''X'' None None (Some ''synthesis of X'') 1
         [Direct ''A'' (Some 0) (Some []) (Some ''re: A''),
          Direct ''B'' (Some 0) (Some [(''A'', Some ''re: A'')]) (Some ''re: B''),
          Direct ''C'' (Some 0) (Some [(''A'', Some ''re: A''), (''B'', Some ''re: B'')])
            (Some ''re: C'')]
         None, 6))"
    using abc_run by (simp add: numeral_2_eq_2 del: solve_dynamically.simps)
  have need: "status ?t = NEEDING_DECOMPOSITION" by simp
  have p: "planner_or None (planner ?ag) = Some ?p"
    by (simp add: planner_or_def stub_agent_def)
  have d: "max_depth ?p \<noteq> 0" by (simp add: abc_planner_def)
  have pl: "plan (one_level_deep ?p) ''X'' (Agent.resources ?ag) None 1 = Inr (?pl, 2)"
    by (simp add: stub_defs)
  have sps: "sub_plans ?pl = [leaf ''A'', leaf ''B'', leaf ''C'']" by simp
  have a': "solve_dynamically 1 stub_execute ?ag ''A''
     (Some (one_fewer_level_deep ?p)) (Some []) 2 =
    Some (Inr (\<lparr>ask = ''A'', resources = {}, status = RESOLVED, result = Some ''re: A''\<rparr>,
        Direct ''A'' (Some 0) (Some []) (Some ''re: A''), 3))"
    by (simp add: stub_defs)
  have b': "solve_dynamically 1 stub_execute ?ag ''B''
     (Some (one_fewer_level_deep ?p)) (Some [(''A'', Some ''re: A'')]) 3 =
    Some (Inr (\<lparr>ask = ''B'', resources = {}, status = RESOLVED, result = Some ''re: B''\<rparr>,
        Direct ''B'' (Some 0) (Some [(''A'', Some ''re: A'')]) (Some ''re: B''), 4))"
    by (simp add: stub_defs)
  have c': "solve_dynamically 1 stub_execute ?ag ''C''
     (Some (one_fewer_level_deep ?p))
     (Some [(''A'', Some ''re: A''), (''B'', Some ''re: B'')]) 4 =
    Some (Inr (\<lparr>ask = ''C'', resources = {}, status = RESOLVED, result = Some ''re: C''\<rparr>,
        Direct ''C'' (Some 0) (Some [(''A'', Some ''re: A''), (''B'', Some ''re: B'')])
          (Some ''re: C''), 5))"
    by (simp add: stub_defs)
  show ?thesis
    using solve_dynamically_sibling_context [OF run abc_reasoner need p d pl sps] run a' b' c'
    by (simp del: solve_dynamically.simps solve_sub_plans.simps)
qed

section \<open>The depth bound\<close>

lemma fold_max_le:
  "a \<le> k \<Longrightarrow> list_all (\<lambda>x. x \<le> k) xs \<Longrightarrow> fold max xs (a::nat) \<le> k"
  by (induction xs arbitrary: a) auto

text \<open>The loop returns when every recursive call does, and its calls have what the recursive
  calls have.\<close>

lemma sub_plans_bounded:
  assumes IH: "\<And>problem oth w.
      \<exists>out. solve_dynamically n ex ag problem (Some sp) oth w = Some out \<and>
        (\<forall>t c w'. out = Inr (t, c, w') \<longrightarrow> Q c)"
  shows "\<exists>out. solve_sub_plans n ex ag sp ps acc w = Some out \<and>
      (\<forall>resolved final calls w'. out = Inr (resolved, final, calls, w') \<longrightarrow> list_all Q calls)"
proof (induction ps arbitrary: acc w)
  case Nil
  then show ?case by simp
next
  case (Cons a ps)
  obtain out where out:
      "solve_dynamically n ex ag (ask (task a)) (Some sp) (Some acc) w = Some out"
    and q: "\<forall>t c w'. out = Inr (t, c, w') \<longrightarrow> Q c"
    using IH by blast
  show ?case
  proof (cases out)
    case (Inl e)
    with out show ?thesis by simp
  next
    case (Inr r)
    obtain t c w1 where r: "r = (t, c, w1)" by (cases r) auto
    with q Inr have qc: "Q c" by simp
    obtain out2 where out2: "solve_sub_plans n ex ag sp ps
        (acc @ [(ask (task a), result t)]) w1 = Some out2"
      and q2: "\<forall>resolved final calls w'.
          out2 = Inr (resolved, final, calls, w') \<longrightarrow> list_all Q calls"
      using Cons.IH by blast
    show ?thesis
      using out Inr r qc out2 q2
      by (cases out2) (auto simp: Let_def)
  qed
qed

lemma solve_dynamically_bounded:
  "planner_or pln (planner ag) = Some p \<Longrightarrow> planner_truthy p \<Longrightarrow> 0 \<le> max_depth p \<Longrightarrow>
   nat (max_depth p) < fuel \<Longrightarrow>
   \<exists>out. solve_dynamically fuel ex ag problem pln oth w = Some out \<and>
     (\<forall>t c w'. out = Inr (t, c, w') \<longrightarrow> within (max_depth p) c)"
proof (induction fuel arbitrary: pln p problem oth w)
  case 0
  then show ?case by simp
next
  case (Suc n)
  let ?d = "max_depth p"
  let ?sp = "one_fewer_level_deep p"
  show ?case
  proof (cases "reasoner ag (new_Task problem (Agent.resources ag)) (knowledge ag) w")
    case (Inl e)
    then show ?thesis by simp
  next
    case (Inr r)
    obtain tx t w1 where r: "r = (tx, t, w1)" by (cases r) auto
    show ?thesis
    proof (cases "status t \<noteq> NEEDING_DECOMPOSITION \<or> ?d = 0")
      case True
      then show ?thesis using Inr r Suc.prems(1) by (auto simp: within_def)
    next
      case False
      then have need: "status t = NEEDING_DECOMPOSITION" and d0: "?d \<noteq> 0" by auto
      show ?thesis
      proof (cases "plan (one_level_deep p) problem (Agent.resources ag) None w1")
        case (Inl e)
        then show ?thesis using Inr r need d0 Suc.prems(1) by simp
      next
        case pl: (Inr pr)
        obtain plan_1 w2 where pr: "pr = (plan_1, w2)" by (cases pr) auto
        have sp: "planner_or (Some ?sp) (planner ag) = Some ?sp" "planner_truthy ?sp"
          "0 \<le> max_depth ?sp" "nat (max_depth ?sp) < n" "max_depth ?sp = ?d - 1"
          using Suc.prems d0 by (auto simp: planner_or_def one_fewer_level_deep_def)
        have rec: "\<exists>out. solve_dynamically n ex ag q (Some ?sp) o' w' = Some out \<and>
            (\<forall>t c w''. out = Inr (t, c, w'') \<longrightarrow>
               (call_planner c = Some (?d - 1) \<and> within (?d - 1) c))" for q o' w'
        proof -
          obtain out where o: "solve_dynamically n ex ag q (Some ?sp) o' w' = Some out"
            and w: "\<forall>t c w''. out = Inr (t, c, w'') \<longrightarrow> within (max_depth ?sp) c"
            using Suc.IH [OF sp(1) sp(2) sp(3) sp(4)] by blast
          show ?thesis
            using o w sp(5) solve_dynamically_call [of n ex ag q "Some ?sp" o' w']
            by auto
        qed
        obtain out where
          loop: "solve_sub_plans n ex ag ?sp (sub_plans plan_1) [] w2 = Some out"
          and all: "\<forall>resolved final calls w'. out = Inr (resolved, final, calls, w') \<longrightarrow>
              list_all (\<lambda>c. call_planner c = Some (?d - 1) \<and> within (?d - 1) c) calls"
          using sub_plans_bounded [of n ex ag ?sp
              "\<lambda>c. call_planner c = Some (?d - 1) \<and> within (?d - 1) c"
              "sub_plans plan_1" "[]" w2] rec by blast
        show ?thesis
        proof (cases out)
          case (Inl e)
          then show ?thesis using Inr r need d0 Suc.prems(1) pl pr loop by simp
        next
          case lo: (Inr lr)
          obtain resolved final calls w3 where lr: "lr = (resolved, final, calls, w3)"
            by (cases lr) auto
          have cs: "list_all (\<lambda>c. call_planner c = Some (?d - 1) \<and> within (?d - 1) c) calls"
            using all lo lr by simp
          have lv: "fold max (map levels calls) 0 \<le> nat (?d - 1)"
            using cs by (intro fold_max_le) (auto simp: list_all_iff within_def)
          have sd: "list_all (\<lambda>c. call_planner c = Some (?d - 1) \<and>
                   (case c of Direct p' pd' o' r' \<Rightarrow> True
                            | Decomposed p' pd' o' r' d' cs' eo' \<Rightarrow> d' = ?d - 1) \<and>
                   strict_decrease c) calls"
            using cs by (auto simp: list_all_iff within_def)
          have le: "Suc (nat (?d - 1)) \<le> nat ?d" using Suc.prems(3) d0 by linarith
          show ?thesis
            using Inr r need d0 Suc.prems(1) pl pr loop lo lr lv sd le
            by (auto simp: within_def split: sum.splits)
        qed
      qed
    qed
  qed
qed

text \<open>With a negative \<open>max_depth\<close> and a reasoner that always asks for a decomposition, no
  stack is deep enough: the depth only moves away from 0.\<close>

lemma negative_depth_diverges:
  "d < 0 \<Longrightarrow>
   solve_dynamically fuel stub_execute (stub_agent a always_hard) problem
     (Some (stub_planner d True)) oth w = None"
proof (induction fuel arbitrary: d problem oth w)
  case 0
  then show ?case by simp
next
  case (Suc n)
  let ?ag = "stub_agent a always_hard"
  let ?p = "stub_planner d True"
  have r: "reasoner ?ag (new_Task problem (Agent.resources ?ag)) (knowledge ?ag) w =
      Inr (''re: '' @ problem,
           \<lparr>ask = problem, resources = {}, status = NEEDING_DECOMPOSITION,
             result = Some (''re: '' @ problem)\<rparr>, Suc w)"
    by (simp add: stub_agent_def stub_reasoner_def always_hard_def new_Task_def)
  have po: "planner_or (Some ?p) (planner ?ag) = Some ?p"
    by (simp add: planner_or_def stub_planner_def)
  have md: "max_depth ?p \<noteq> 0"
    using Suc.prems by (simp add: stub_planner_def)
  have pl: "plan (one_level_deep ?p) problem (Agent.resources ?ag) None (Suc w) =
      Inr (Plan (new_Task problem {}) [leaf (problem @ ''1''), leaf (problem @ ''2'')] True,
           Suc (Suc w))"
    by (simp add: plan_def one_level_deep_def stub_planner_def stub_agent_def)
  have sp: "one_fewer_level_deep ?p = stub_planner (d - 1) True"
    by (simp add: one_fewer_level_deep_def stub_planner_def)
  have rec: "solve_dynamically n stub_execute ?ag q (Some (stub_planner (d - 1) True)) o' w' =
      None" for q o' w'
    using Suc.IH [of "d - 1"] Suc.prems by simp
  show ?case
    by (simp add: r po md pl sp rec)
qed

text \<open>A planner object that is falsy is dropped by \<^verbatim>\<open>planner or self.planner\<close> at every
  descent, for the agent's own planner: the depth never decreases.\<close>

lemma falsy_planner_run:
  "solve_dynamically 5 stub_execute (stub_agent (Some (stub_planner 1 False)) always_hard)
     ''X'' None None 0 = None"
  by (simp add: stub_defs eval_nat_numeral)

lemma depth_two_run:
  "map_option levels (call_of (solve_dynamically 3 stub_execute
      (stub_agent (Some (stub_planner 2 True)) always_hard) ''X'' None None 0)) = Some 2 \<and>
   map_option strict_decrease (call_of (solve_dynamically 3 stub_execute
      (stub_agent (Some (stub_planner 2 True)) always_hard) ''X'' None None 0)) = Some True"
  by (simp add: stub_defs call_of_def eval_nat_numeral)

text \<open>
  C1. The claim: for every agent, each descent uses a planner whose \<open>max_depth\<close> is one less
  than its caller's, and the recursion ends after at most the initial \<open>max_depth\<close> levels.
  The guard tests that \<open>max_depth\<close> is not 0, not that it is positive: from the initial
  \<open>max_depth\<close> -1 the depths are -2, -3, ... and the recursion does not end within a stack of
  5 calls (nor within any other, \<open>negative_depth_diverges\<close>).
\<close>

theorem negative_depth_counterexample:
  "solve_dynamically 5 stub_execute (stub_agent (Some (stub_planner (- 1) True)) always_hard)
     ''X'' None None 0 = None"
  by (simp add: stub_defs eval_nat_numeral)

text \<open>
  C1, amended. When the planner a call decomposes with is a truthy object whose \<open>max_depth\<close>
  is not negative, the call returns or raises within a stack of \<open>max_depth + 1\<close> calls,
  whatever the reasoner, the planner and \<open>execute\<close> do; when it returns, there are at most
  \<open>max_depth\<close> levels of decomposition under it, and every recursive descent was given, and
  decomposed with, a planner whose \<open>max_depth\<close> is one less than that of its caller's.
\<close>

theorem solve_dynamically_depth_bounded:
  "planner_or pln (planner ag) = Some p \<Longrightarrow> planner_truthy p \<Longrightarrow> 0 \<le> max_depth p \<Longrightarrow>
   nat (max_depth p) < fuel \<Longrightarrow>
   (\<exists>out. solve_dynamically fuel ex ag problem pln oth w = Some out) \<and>
   (\<forall>c. call_of (solve_dynamically fuel ex ag problem pln oth w) = Some c \<longrightarrow>
      levels c \<le> nat (max_depth p) \<and> strict_decrease c)"
  using solve_dynamically_bounded [of pln ag p fuel ex problem oth w]
  by (auto simp: call_of_def within_def split: option.splits sum.splits prod.splits)

theorem solve_dynamically_depth_bounded_witness:
  "planner_or None (planner (stub_agent (Some (stub_planner 2 True)) always_hard)) =
     Some (stub_planner 2 True) \<and>
   planner_truthy (stub_planner 2 True) \<and> 0 \<le> max_depth (stub_planner 2 True) \<and>
   nat (max_depth (stub_planner 2 True)) < 3 \<and>
   map_option levels (call_of (solve_dynamically 3 stub_execute
      (stub_agent (Some (stub_planner 2 True)) always_hard) ''X'' None None 0)) = Some 2 \<and>
   map_option strict_decrease (call_of (solve_dynamically 3 stub_execute
      (stub_agent (Some (stub_planner 2 True)) always_hard) ''X'' None None 0)) = Some True"
proof -
  let ?ag = "stub_agent (Some (stub_planner 2 True)) always_hard"
  let ?p = "stub_planner 2 True"
  have a: "planner_or None (planner ?ag) = Some ?p"
    by (simp add: planner_or_def stub_agent_def)
  have b: "planner_truthy ?p" by (simp add: stub_planner_def)
  have c: "0 \<le> max_depth ?p" by (simp add: stub_planner_def)
  have d: "nat (max_depth ?p) < 3" by (simp add: stub_planner_def)
  show ?thesis
    using a b c d depth_two_run
      solve_dynamically_depth_bounded [OF a b c d, of stub_execute "''X''" None 0]
    by (simp del: solve_dynamically.simps)
qed

end
